theory Spec2Isabelle
  imports Main
begin

section \<open>The form of the CDP network auditor\<close>

text \<open>
  The program is one class, \<open>MyGUIClass\<close> (\<^verbatim>\<open>MyPackage/MyGui.py\<close>): a Tk form with ten
  string variables, the widgets that show them, a Submit button bound to \<open>validation\<close>,
  a Browse button bound to \<open>get_folder_path\<close> and a Cancel button.  The model keeps the
  source's names.  Mutation of the object is explicit state passing; the message boxes the
  code opens are appended to a log, in the order they are opened.
\<close>

subsection \<open>State\<close>

text \<open>The \<open>StringVar\<close> attributes created in \<open>__init__\<close>.\<close>

datatype var =
    SiteName_var | Username_var | password_var | answer_redo_var | answer_password_var
  | IP_Address1_var | IP_Address2_var | FolderPath_var | JumpServer_var | Debugging_var

text \<open>The widgets created in \<open>__init__\<close> that take part in the form's behaviour.\<close>

datatype widget =
    Site_Name_entry | Username_entry | password_entry | answer_redo | answer_password_entry
  | IP_Address1_entry | IP_Address2_entry | FolderPath_entry | browse_button | JumpServer
  | Debugging | submit_button | cancel_button

text \<open>The \<open>state\<close> option of a Tk widget, as far as the code sets it.\<close>

datatype widget_state = Normal | Readonly | Disabled

text \<open>A call of \<open>tkinter.messagebox.showerror\<close> or \<open>showinfo\<close>: title and message.\<close>

datatype dialog = Showerror string string | Showinfo string string

record gui =
  vars :: "var \<Rightarrow> string"
  widget_states :: "widget \<Rightarrow> widget_state"
  destroyed :: bool
  dialogs :: "dialog list"

text \<open>
  The \<open>textvariable\<close> option given to each entry and combobox in \<open>__init__\<close>: the widget
  shows, and edits, that variable.
\<close>

fun textvariable :: "widget \<Rightarrow> var option" where
  "textvariable Site_Name_entry = Some SiteName_var"
| "textvariable Username_entry = Some Username_var"
| "textvariable password_entry = Some password_var"
| "textvariable answer_redo = Some answer_redo_var"
| "textvariable answer_password_entry = Some answer_password_var"
| "textvariable IP_Address1_entry = Some IP_Address1_var"
| "textvariable IP_Address2_entry = Some IP_Address2_var"
| "textvariable FolderPath_entry = Some FolderPath_var"
| "textvariable JumpServer = Some JumpServer_var"
| "textvariable Debugging = Some Debugging_var"
| "textvariable browse_button = None"
| "textvariable submit_button = None"
| "textvariable cancel_button = None"

subsection \<open>The toolkit calls the code makes\<close>

definition StringVar_get :: "var \<Rightarrow> gui \<Rightarrow> string" where
  "StringVar_get v g = vars g v"

definition StringVar_set :: "var \<Rightarrow> string \<Rightarrow> gui \<Rightarrow> gui" where
  "StringVar_set v s g = g\<lparr>vars := (vars g)(v := s)\<rparr>"

text \<open>\<open>Entry.get()\<close> returns the text of the entry, which is the value of its variable.\<close>

definition Entry_get :: "widget \<Rightarrow> gui \<Rightarrow> string" where
  "Entry_get w g = (case textvariable w of Some v \<Rightarrow> StringVar_get v g | None \<Rightarrow> [])"

definition config_state :: "widget \<Rightarrow> widget_state \<Rightarrow> gui \<Rightarrow> gui" where
  "config_state w st g = g\<lparr>widget_states := (widget_states g)(w := st)\<rparr>"

definition showerror :: "string \<Rightarrow> string \<Rightarrow> gui \<Rightarrow> gui" where
  "showerror title message g = g\<lparr>dialogs := dialogs g @ [Showerror title message]\<rparr>"

definition showinfo :: "string \<Rightarrow> string \<Rightarrow> gui \<Rightarrow> gui" where
  "showinfo title message g = g\<lparr>dialogs := dialogs g @ [Showinfo title message]\<rparr>"

definition master_destroy :: "gui \<Rightarrow> gui" where
  "master_destroy g = g\<lparr>destroyed := True\<rparr>"

subsection \<open>\<open>__init__\<close>\<close>

text \<open>
  The state \<open>__init__\<close> leaves behind: every \<open>StringVar\<close> starts empty; \<open>answer_redo_var\<close>
  and \<open>Debugging_var\<close> are set to the first value of their combobox; \<open>JumpServer_var\<close> is
  set to \<^verbatim>\<open>10.251.131.6\<close> and then overwritten by \<open>JumpServer.current(0)\<close>.  The three
  comboboxes are created read-only, \<open>FolderPath_entry\<close> is configured disabled, every other
  widget has the default state.
\<close>

definition init_gui :: gui where
  "init_gui =
     \<lparr> vars = (\<lambda>_. [])
         (answer_redo_var := ''Yes'', JumpServer_var := ''MMFTH1V-MGMTS02'', Debugging_var := ''Off''),
       widget_states = (\<lambda>_. Normal)
         (answer_redo := Readonly, FolderPath_entry := Disabled, JumpServer := Readonly,
          Debugging := Readonly),
       destroyed = False,
       dialogs = [] \<rparr>"

section \<open>The address parser of the standard library\<close>

text \<open>
  \<open>validation\<close> calls \<open>ipaddress.ip_address\<close> of the Python standard library, which is not
  part of the repository.  The theorems below are stated for an arbitrary parser \<open>p\<close> that,
  given a string, either raises \<open>ValueError\<close> or returns an address object.  For concrete
  runs the library function is transcribed here from CPython's \<^verbatim>\<open>Lib/ipaddress.py\<close>
  (version 3.11), restricted to string arguments; the exceptions internal to the module
  (\<open>AddressValueError\<close>, and the \<open>ValueError\<close> of the digit parsers that it is made from)
  are the value \<open>None\<close>, and only \<open>ip_address\<close> itself raises.
\<close>

datatype exn = ValueError

text \<open>An address object: the integer \<open>_ip\<close> (a Python \<open>int\<close>) and, for version 6, the \<open>_scope_id\<close>.\<close>

datatype address = IPv4Address int | IPv6Address int "string option"

type_synonym ip_parser = "string \<Rightarrow> exn + address"

text \<open>
  The truth value Python gives an address object, which \<open>not\<close> negates: neither class (nor
  a base class) defines \<open>__bool__\<close> or \<open>__len__\<close>, so every instance is true.
\<close>

fun truth_value :: "address \<Rightarrow> bool" where
  "truth_value (IPv4Address n) = True"
| "truth_value (IPv6Address n scope_id) = True"

text \<open>\<open>str.split(sep)\<close> for a separator of one character: there is always a first field.\<close>

fun split_on :: "char \<Rightarrow> string \<Rightarrow> string list" where
  "split_on sep [] = [[]]"
| "split_on sep (c # cs) =
     (if c = sep then [] # split_on sep cs
      else (case split_on sep cs of [] \<Rightarrow> [[c]] | f # fs \<Rightarrow> (c # f) # fs))"

definition is_ascii_digit :: "char \<Rightarrow> bool" where
  "is_ascii_digit c = (c \<in> set ''0123456789'')"

definition is_hex_digit :: "char \<Rightarrow> bool" where
  "is_hex_digit c = (c \<in> set ''0123456789ABCDEFabcdef'')"

definition digit_value :: "char \<Rightarrow> int" where
  "digit_value c =
     (if is_ascii_digit c then of_char c - 48
      else if c \<in> set ''abcdef'' then of_char c - 87
      else of_char c - 55)"

text \<open>\<open>int(s, base)\<close> on a non-empty string of digits of that base.\<close>

definition int_of_digits :: "int \<Rightarrow> string \<Rightarrow> int" where
  "int_of_digits base s = foldl (\<lambda>n c. base * n + digit_value c) 0 s"

text \<open>\<open>_BaseV4._parse_octet\<close>\<close>

definition parse_octet :: "string \<Rightarrow> int option" where
  "parse_octet octet_str =
     (if octet_str = [] then None
      else if \<not> list_all is_ascii_digit octet_str then None
      else if length octet_str > 3 then None
      else if octet_str \<noteq> ''0'' \<and> hd octet_str = CHR ''0'' then None
      else (let octet_int = int_of_digits 10 octet_str in
            if octet_int > 255 then None else Some octet_int))"

text \<open>\<open>_BaseV4._ip_int_from_string\<close>; \<open>int.from_bytes(..., 'big')\<close> is the fold.\<close>

definition v4_int_from_string :: "string \<Rightarrow> int option" where
  "v4_int_from_string ip_str =
     (if ip_str = [] then None
      else (let octets = split_on CHR ''.'' ip_str in
            if length octets \<noteq> 4 then None
            else (case those (map parse_octet octets) of
                    None \<Rightarrow> None
                  | Some bytes \<Rightarrow> Some (foldl (\<lambda>n b. 256 * n + b) 0 bytes))))"

text \<open>\<open>IPv4Address.__init__\<close> on a string: the value of \<open>_ip\<close>.\<close>

definition IPv4Address_init :: "string \<Rightarrow> int option" where
  "IPv4Address_init addr_str =
     (if CHR ''/'' \<in> set addr_str then None else v4_int_from_string addr_str)"

text \<open>\<open>_BaseV6._parse_hextet\<close>; \<open>int('', 16)\<close> raises.\<close>

definition parse_hextet :: "string \<Rightarrow> int option" where
  "parse_hextet hextet_str =
     (if \<not> list_all is_hex_digit hextet_str then None
      else if length hextet_str > 4 then None
      else if hextet_str = [] then None
      else Some (int_of_digits 16 hextet_str))"

text \<open>\<open>'%x' % n\<close> for \<open>n < 65536\<close>: lower-case hexadecimal without leading zeros.\<close>

definition hex_str :: "int \<Rightarrow> string" where
  "hex_str n =
     (let digits = map (\<lambda>k. ''0123456789abcdef'' ! nat ((n div 16 ^ k) mod 16)) [3, 2, 1, 0::nat];
          stripped = dropWhile (\<lambda>c. c = CHR ''0'') digits
      in if stripped = [] then ''0'' else stripped)"

text \<open>
  \<open>_BaseV6._ip_int_from_string\<close>, first part: split at the colons and replace a dotted
  version 4 suffix by its two hextets.
\<close>

definition v6_parts :: "string \<Rightarrow> string list option" where
  "v6_parts ip_str =
     (if ip_str = [] then None
      else (let parts = split_on CHR '':'' ip_str in
            if length parts < 3 then None
            else if CHR ''.'' \<in> set (last parts) then
              (case IPv4Address_init (last parts) of
                 None \<Rightarrow> None
               | Some ipv4_int \<Rightarrow>
                   Some (butlast parts @
                         [hex_str ((ipv4_int div 65536) mod 65536), hex_str (ipv4_int mod 65536)]))
            else Some parts))"

text \<open>
  The loop that looks for \<open>::\<close> away from the two ends: \<open>None\<close> when there is more than
  one, else the \<open>skip_index\<close> (itself \<open>None\<close> when there is no \<open>::\<close>).
\<close>

definition v6_skip_index :: "string list \<Rightarrow> nat option option" where
  "v6_skip_index parts =
     (case filter (\<lambda>i. parts ! i = []) [1 ..< length parts - 1] of
        [] \<Rightarrow> Some None
      | [i] \<Rightarrow> Some (Some i)
      | _ \<Rightarrow> None)"

text \<open>The triple \<open>(parts_hi, parts_lo, parts_skipped)\<close>.\<close>

definition v6_layout :: "string list \<Rightarrow> (nat \<times> nat \<times> nat) option" where
  "v6_layout parts =
     (case v6_skip_index parts of
        None \<Rightarrow> None
      | Some (Some skip_index) \<Rightarrow>
          (let hi0 = skip_index;
               lo0 = length parts - skip_index - 1;
               parts_hi = (if hd parts = [] then hi0 - 1 else hi0);
               parts_lo = (if last parts = [] then lo0 - 1 else lo0)
           in if hd parts = [] \<and> parts_hi \<noteq> 0 then None
              else if last parts = [] \<and> parts_lo \<noteq> 0 then None
              else if 8 < parts_hi + parts_lo + 1 then None
              else Some (parts_hi, parts_lo, 8 - (parts_hi + parts_lo)))
      | Some None \<Rightarrow>
          (if length parts \<noteq> 8 then None
           else if hd parts = [] then None
           else if last parts = [] then None
           else Some (length parts, 0, 0)))"

definition v6_int_from_string :: "string \<Rightarrow> int option" where
  "v6_int_from_string ip_str =
     (case v6_parts ip_str of
        None \<Rightarrow> None
      | Some parts \<Rightarrow>
          (if length parts > 9 then None
           else (case v6_layout parts of
                   None \<Rightarrow> None
                 | Some (parts_hi, parts_lo, parts_skipped) \<Rightarrow>
                     (case (those (map parse_hextet (take parts_hi parts)),
                            those (map parse_hextet (drop (length parts - parts_lo) parts))) of
                        (Some his, Some los) \<Rightarrow>
                          Some (foldl (\<lambda>n h. 65536 * n + h)
                                  (foldl (\<lambda>n h. 65536 * n + h) 0 his * 65536 ^ parts_skipped) los)
                      | _ \<Rightarrow> None))))"

text \<open>\<open>_BaseV6._split_scope_id\<close>: \<open>ip_str.partition('%')\<close> and the check of the scope.\<close>

definition split_scope_id :: "string \<Rightarrow> (string \<times> string option) option" where
  "split_scope_id ip_str =
     (let addr = takeWhile (\<lambda>c. c \<noteq> CHR ''%'') ip_str;
          rest = dropWhile (\<lambda>c. c \<noteq> CHR ''%'') ip_str
      in if rest = [] then Some (addr, None)
         else if tl rest = [] \<or> CHR ''%'' \<in> set (tl rest) then None
         else Some (addr, Some (tl rest)))"

text \<open>\<open>IPv6Address.__init__\<close> on a string: \<open>_ip\<close> and \<open>_scope_id\<close>.\<close>

definition IPv6Address_init :: "string \<Rightarrow> (int \<times> string option) option" where
  "IPv6Address_init addr_str =
     (if CHR ''/'' \<in> set addr_str then None
      else (case split_scope_id addr_str of
              None \<Rightarrow> None
            | Some (addr, scope_id) \<Rightarrow>
                (case v6_int_from_string addr of
                   None \<Rightarrow> None
                 | Some ip \<Rightarrow> Some (ip, scope_id))))"

text \<open>\<open>ipaddress.ip_address\<close>: version 4 first, then version 6, else \<open>ValueError\<close>.\<close>

definition ip_address :: ip_parser where
  "ip_address address =
     (case IPv4Address_init address of
        Some ip \<Rightarrow> Inr (IPv4Address ip)
      | None \<Rightarrow>
          (case IPv6Address_init address of
             Some (ip, scope_id) \<Rightarrow> Inr (IPv6Address ip scope_id)
           | None \<Rightarrow> Inl ValueError))"

section \<open>The two handlers\<close>

subsection \<open>\<open>get_folder_path\<close>\<close>

text \<open>
  \<^verbatim>\<open>folder_selected = filedialog.askdirectory()\<close>
  \<^verbatim>\<open>self.FolderPath_var.set(folder_selected)\<close>

  The directory dialog is outside the program: its answer, \<open>folder_selected\<close>, is an input
  of the model.  Tk's \<open>askdirectory\<close> answers with the chosen directory, and with the empty
  string when the dialog is cancelled.
\<close>

definition get_folder_path :: "string \<Rightarrow> gui \<Rightarrow> gui" where
  "get_folder_path folder_selected g = StringVar_set FolderPath_var folder_selected g"

subsection \<open>\<open>validation\<close>\<close>

text \<open>
  The method is one \<open>if\<close>/\<open>elif\<close> chain inside \<open>try\<close>, with a handler for \<open>ValueError\<close>.
  The model follows it in two steps: which branch of the chain is taken (evaluating the
  conditions in order, where the two conditions that call the parser may raise), and what
  the body of that branch does.
\<close>

datatype branch =
    Site_Name_empty | Username_empty | Password_empty | Answer_Password_empty
  | Core_Switch_1_invalid | Core_Switch_2_invalid | Results_location_empty | All_valid

text \<open>\<^verbatim>\<open>not ipaddress.ip_address(self.IP_Address1_var.get())\<close>\<close>

definition cond_IP_Address1 :: "ip_parser \<Rightarrow> gui \<Rightarrow> exn + bool" where
  "cond_IP_Address1 p g =
     (case p (StringVar_get IP_Address1_var g) of
        Inl e \<Rightarrow> Inl e
      | Inr a \<Rightarrow> Inr (\<not> truth_value a))"

text \<open>
  \<^verbatim>\<open>self.IP_Address2_var.get() and not ipaddress.ip_address(self.IP_Address2_var.get())\<close>:
  \<open>and\<close> does not evaluate its second operand when the first is the empty string.
\<close>

definition cond_IP_Address2 :: "ip_parser \<Rightarrow> gui \<Rightarrow> exn + bool" where
  "cond_IP_Address2 p g =
     (if StringVar_get IP_Address2_var g = [] then Inr False
      else (case p (StringVar_get IP_Address2_var g) of
              Inl e \<Rightarrow> Inl e
            | Inr a \<Rightarrow> Inr (\<not> truth_value a)))"

text \<open>The end of the chain: the \<open>elif\<close> on \<open>FolderPath_var\<close> and the \<open>else\<close>.\<close>

definition chain_from_FolderPath :: "gui \<Rightarrow> branch" where
  "chain_from_FolderPath g =
     (if StringVar_get FolderPath_var g = [] then Results_location_empty else All_valid)"

text \<open>The chain from the \<open>elif\<close> on the second address on.\<close>

definition chain_from_IP_Address2 :: "ip_parser \<Rightarrow> gui \<Rightarrow> exn + branch" where
  "chain_from_IP_Address2 p g =
     (case cond_IP_Address2 p g of
        Inl e \<Rightarrow> Inl e
      | Inr True \<Rightarrow> Inr Core_Switch_2_invalid
      | Inr False \<Rightarrow> Inr (chain_from_FolderPath g))"

text \<open>The chain from the \<open>elif\<close> on the first address on.\<close>

definition chain_from_IP_Address1 :: "ip_parser \<Rightarrow> gui \<Rightarrow> exn + branch" where
  "chain_from_IP_Address1 p g =
     (case cond_IP_Address1 p g of
        Inl e \<Rightarrow> Inl e
      | Inr True \<Rightarrow> Inr Core_Switch_1_invalid
      | Inr False \<Rightarrow> chain_from_IP_Address2 p g)"

text \<open>The whole chain.\<close>

definition validation_branch :: "ip_parser \<Rightarrow> gui \<Rightarrow> exn + branch" where
  "validation_branch p g =
     (if Entry_get Site_Name_entry g = [] then Inr Site_Name_empty
      else if StringVar_get Username_var g = [] then Inr Username_empty
      else if StringVar_get password_var g = [] then Inr Password_empty
      else if StringVar_get answer_redo_var g = ''Yes'' \<and> StringVar_get answer_password_var g = []
        then Inr Answer_Password_empty
      else chain_from_IP_Address1 p g)"

text \<open>The messages, as the source writes them.\<close>

definition msg_Site_Name :: string where
  "msg_Site_Name = ''Site Name field is empty\<newline>Please check and try again!''"

definition msg_Username :: string where
  "msg_Username = ''Username field is empty\<newline>Please check and try again!''"

definition msg_Password :: string where
  "msg_Password = ''Password field is empty\<newline>Please check and try again!''"

definition msg_Answer_Password :: string where
  "msg_Answer_Password = ''Answer Password field is empty\<newline>Please check and try again!''"

definition msg_Core_Switch_1 :: string where
  "msg_Core_Switch_1 =
     ''Core Switch 1 field is empty or IP is invalid\<newline>Please check and try again!''"

definition msg_Core_Switch_2 :: string where
  "msg_Core_Switch_2 = ''Core Switch 1 IP is invalid\<newline>Please check and try again!''"

definition msg_Results_location :: string where
  "msg_Results_location =
     ''Results file location field is empty\<newline>Please check and try again!''"

definition msg_ValueError :: string where
  "msg_ValueError =
     ''One of the IP Addresses you provided is invalid\<newline>Please check and try again!''"

definition msg_running :: string where
  "msg_running =
     ''Your script is running in the background\<newline>and may take a few minutes\<newline>You will be notified upon completion!''"

text \<open>The twelve \<open>config(state="disabled")\<close> calls of the last branch, in order.\<close>

definition disable_widgets :: "gui \<Rightarrow> gui" where
  "disable_widgets g =
     foldl (\<lambda>g w. config_state w Disabled g) g
       [Site_Name_entry, Username_entry, password_entry, answer_redo, answer_password_entry,
        IP_Address1_entry, IP_Address2_entry, FolderPath_entry, browse_button, JumpServer,
        Debugging, submit_button]"

fun branch_body :: "branch \<Rightarrow> gui \<Rightarrow> gui" where
  "branch_body Site_Name_empty g = showerror ''Error'' msg_Site_Name g"
| "branch_body Username_empty g = showerror ''Error'' msg_Username g"
| "branch_body Password_empty g = showerror ''Error'' msg_Password g"
| "branch_body Answer_Password_empty g = showerror ''Error'' msg_Answer_Password g"
| "branch_body Core_Switch_1_invalid g = showerror ''Error'' msg_Core_Switch_1 g"
| "branch_body Core_Switch_2_invalid g = showerror ''Error'' msg_Core_Switch_2 g"
| "branch_body Results_location_empty g = showerror ''Error'' msg_Results_location g"
| "branch_body All_valid g =
     master_destroy (showinfo ''Information'' msg_running (disable_widgets g))"

text \<open>
  The \<open>try\<close> block.  An exception can only come from a condition, before any branch body
  has run, so the state at the handler is the state at entry.
\<close>

definition validation_try :: "ip_parser \<Rightarrow> gui \<Rightarrow> exn + gui" where
  "validation_try p g =
     (case validation_branch p g of
        Inl e \<Rightarrow> Inl e
      | Inr b \<Rightarrow> Inr (branch_body b g))"

text \<open>\<open>validation\<close>: the \<open>try\<close> block with its \<^verbatim>\<open>except ValueError\<close> handler.\<close>

definition validation :: "ip_parser \<Rightarrow> gui \<Rightarrow> exn + gui" where
  "validation p g =
     (case validation_try p g of
        Inl ValueError \<Rightarrow> Inr (showerror ''Error'' msg_ValueError g)
      | Inr g' \<Rightarrow> Inr g')"

subsection \<open>The event loop\<close>

text \<open>
  What the user can do to the form while \<open>root.mainloop()\<close> runs, apart from cancelling
  (which ends the process): edit the text of an entry or choose a value in a combobox,
  press Submit (\<^verbatim>\<open>command=self.validation\<close>), press Browse
  (\<^verbatim>\<open>command=self.get_folder_path\<close>) and answer the directory dialog.  Tk delivers no
  event to a destroyed window, a disabled button does not run its command, and a disabled
  entry or combobox cannot be edited.  (A read-only combobox offers its listed values only;
  the model lets \<open>Edit\<close> store any string, which allows more runs, not fewer.)
\<close>

datatype event = Edit widget string | Press_submit | Press_browse string

definition handle :: "ip_parser \<Rightarrow> event \<Rightarrow> gui \<Rightarrow> exn + gui" where
  "handle p ev g =
     (if destroyed g then Inr g
      else (case ev of
              Edit w s \<Rightarrow>
                (case textvariable w of
                   None \<Rightarrow> Inr g
                 | Some v \<Rightarrow>
                     if widget_states g w = Disabled then Inr g else Inr (StringVar_set v s g))
            | Press_submit \<Rightarrow>
                if widget_states g submit_button = Disabled then Inr g else validation p g
            | Press_browse folder_selected \<Rightarrow>
                if widget_states g browse_button = Disabled then Inr g
                else Inr (get_folder_path folder_selected g)))"

text \<open>A run of the loop; an exception that leaves a handler ends it.\<close>

fun run :: "ip_parser \<Rightarrow> event list \<Rightarrow> gui \<Rightarrow> exn + gui" where
  "run p [] g = Inr g"
| "run p (ev # evs) g = (case handle p ev g of Inl e \<Rightarrow> Inl e | Inr g' \<Rightarrow> run p evs g')"

section \<open>The validation rules, as the specification lists them\<close>

text \<open>
  The specification describes \<open>submit\<close> as seven rules checked in a fixed order.  The
  definitions of this section follow that description, to be compared with \<open>validation\<close>:
  \<open>rule_fails\<close> says when a rule is broken and \<open>rule_order\<close> is the order of the list.
\<close>

datatype rule =
    Rule_siteName | Rule_username | Rule_password | Rule_answerPassword
  | Rule_coreSwitch1 | Rule_coreSwitch2 | Rule_resultsFolder

definition rule_order :: "rule list" where
  "rule_order =
     [Rule_siteName, Rule_username, Rule_password, Rule_answerPassword,
      Rule_coreSwitch1, Rule_coreSwitch2, Rule_resultsFolder]"

fun rule_fails :: "ip_parser \<Rightarrow> gui \<Rightarrow> rule \<Rightarrow> bool" where
  "rule_fails p g Rule_siteName = (vars g SiteName_var = [])"
| "rule_fails p g Rule_username = (vars g Username_var = [])"
| "rule_fails p g Rule_password = (vars g password_var = [])"
| "rule_fails p g Rule_answerPassword =
     (vars g answer_redo_var = ''Yes'' \<and> vars g answer_password_var = [])"
| "rule_fails p g Rule_coreSwitch1 = isl (p (vars g IP_Address1_var))"
| "rule_fails p g Rule_coreSwitch2 =
     (vars g IP_Address2_var \<noteq> [] \<and> isl (p (vars g IP_Address2_var)))"
| "rule_fails p g Rule_resultsFolder = (vars g FolderPath_var = [])"

text \<open>The first rule of the list that is broken, if any.\<close>

definition first_failing :: "ip_parser \<Rightarrow> gui \<Rightarrow> rule option" where
  "first_failing p g = find (rule_fails p g) rule_order"

text \<open>
  The error taxonomy of the specification, and the error it gives for each rule; every
  error carries the name of the offending field.
\<close>

datatype ValidationError = EmptyField string | InvalidOrEmptyIP string | InvalidIP string

fun rule_error :: "rule \<Rightarrow> ValidationError" where
  "rule_error Rule_siteName = EmptyField ''Site Name''"
| "rule_error Rule_username = EmptyField ''Username''"
| "rule_error Rule_password = EmptyField ''Password''"
| "rule_error Rule_answerPassword = EmptyField ''Answer Password''"
| "rule_error Rule_coreSwitch1 = InvalidOrEmptyIP ''Core Switch 1''"
| "rule_error Rule_coreSwitch2 = InvalidIP ''Core Switch 2''"
| "rule_error Rule_resultsFolder = EmptyField ''Results Folder''"

fun error_field :: "ValidationError \<Rightarrow> string" where
  "error_field (EmptyField name) = name"
| "error_field (InvalidOrEmptyIP name) = name"
| "error_field (InvalidIP name) = name"

text \<open>The two states of the controller: the form is \<open>Submitted\<close> once its window is gone.\<close>

datatype controller_state = Editing | Submitted

definition controller :: "gui \<Rightarrow> controller_state" where
  "controller g = (if destroyed g then Submitted else Editing)"

text \<open>
  Whether a message names a field: the field's name occurs in the text of the message.
\<close>

definition mentions :: "string \<Rightarrow> string \<Rightarrow> bool" where
  "mentions message name =
     list_ex (\<lambda>i. take (length name) (drop i message) = name) [0 ..< Suc (length message)]"

text \<open>
  Scenario A of the specification, entered into the freshly built form: site \<open>HQ\<close>, user
  \<open>admin\<close>, password \<open>x\<close>, no retry with answer credentials, first core switch
  \<^verbatim>\<open>10.0.0.1\<close>, no second core switch, results in \<^verbatim>\<open>/tmp/out\<close>.
\<close>

definition Scenario_A :: gui where
  "Scenario_A =
     init_gui\<lparr>vars := (vars init_gui)
       (SiteName_var := ''HQ'', Username_var := ''admin'', password_var := ''x'',
        answer_redo_var := ''No'', IP_Address1_var := ''10.0.0.1'',
        FolderPath_var := ''/tmp/out'')\<rparr>"

text \<open>
  Scenario B: as A, with \<^verbatim>\<open>999.999.999.999\<close> for the first core switch.  Scenario D: the
  site name is empty (here on top of scenario B, so that a later field is wrong as well).
\<close>

definition Scenario_B :: gui where
  "Scenario_B = StringVar_set IP_Address1_var ''999.999.999.999'' Scenario_A"

definition Scenario_D :: gui where
  "Scenario_D = StringVar_set SiteName_var [] Scenario_B"

section \<open>Facts about the model\<close>

subsection \<open>The chain of conditions and the rules\<close>

lemma truth_value_always: "truth_value a"
  by (cases a) simp_all

lemma exn_ValueError: "(e::exn) = ValueError"
  by (cases e)

lemma cond_IP_Address1_eq:
  "cond_IP_Address1 p g = (if isl (p (vars g IP_Address1_var)) then Inl ValueError else Inr False)"
  by (simp add: cond_IP_Address1_def StringVar_get_def truth_value_always exn_ValueError
           split: sum.splits)

lemma cond_IP_Address2_eq:
  "cond_IP_Address2 p g =
     (if vars g IP_Address2_var \<noteq> [] \<and> isl (p (vars g IP_Address2_var)) then Inl ValueError
      else Inr False)"
  by (simp add: cond_IP_Address2_def StringVar_get_def truth_value_always exn_ValueError
           split: sum.splits)

lemma chain_from_IP_Address1_eq:
  "chain_from_IP_Address1 p g =
     (if rule_fails p g Rule_coreSwitch1 \<or> rule_fails p g Rule_coreSwitch2 then Inl ValueError
      else Inr (chain_from_FolderPath g))"
  by (simp add: chain_from_IP_Address1_def chain_from_IP_Address2_def cond_IP_Address1_eq
        cond_IP_Address2_eq)

lemma validation_branch_eq:
  "validation_branch p g =
     (case first_failing p g of
        None \<Rightarrow> Inr All_valid
      | Some Rule_siteName \<Rightarrow> Inr Site_Name_empty
      | Some Rule_username \<Rightarrow> Inr Username_empty
      | Some Rule_password \<Rightarrow> Inr Password_empty
      | Some Rule_answerPassword \<Rightarrow> Inr Answer_Password_empty
      | Some Rule_coreSwitch1 \<Rightarrow> Inl ValueError
      | Some Rule_coreSwitch2 \<Rightarrow> Inl ValueError
      | Some Rule_resultsFolder \<Rightarrow> Inr Results_location_empty)"
  by (simp add: validation_branch_def chain_from_IP_Address1_eq chain_from_FolderPath_def
        first_failing_def rule_order_def Entry_get_def StringVar_get_def)

text \<open>
  The outcome of \<open>validation\<close> for each first broken rule, read off the code: the five
  rules on empty fields end in their own branch, a core switch that does not parse ends in
  the handler.
\<close>

lemma validation_by_first_failing:
  "validation p g =
     Inr (case first_failing p g of
            None \<Rightarrow> branch_body All_valid g
          | Some Rule_siteName \<Rightarrow> showerror ''Error'' msg_Site_Name g
          | Some Rule_username \<Rightarrow> showerror ''Error'' msg_Username g
          | Some Rule_password \<Rightarrow> showerror ''Error'' msg_Password g
          | Some Rule_answerPassword \<Rightarrow> showerror ''Error'' msg_Answer_Password g
          | Some Rule_coreSwitch1 \<Rightarrow> showerror ''Error'' msg_ValueError g
          | Some Rule_coreSwitch2 \<Rightarrow> showerror ''Error'' msg_ValueError g
          | Some Rule_resultsFolder \<Rightarrow> showerror ''Error'' msg_Results_location g)"
  by (simp add: validation_def validation_try_def validation_branch_eq
           split: option.splits rule.splits)

subsection \<open>The effect of the branch bodies\<close>

lemma showerror_simps:
  "vars (showerror t m g) = vars g"
  "widget_states (showerror t m g) = widget_states g"
  "destroyed (showerror t m g) = destroyed g"
  "dialogs (showerror t m g) = dialogs g @ [Showerror t m]"
  by (simp_all add: showerror_def)

lemma disable_widgets_simps:
  "vars (disable_widgets g) = vars g"
  "destroyed (disable_widgets g) = destroyed g"
  "dialogs (disable_widgets g) = dialogs g"
  "widget_states (disable_widgets g) w =
     (if w = cancel_button then widget_states g cancel_button else Disabled)"
  by (cases w; simp add: disable_widgets_def config_state_def)+

lemma All_valid_simps:
  "vars (branch_body All_valid g) = vars g"
  "destroyed (branch_body All_valid g) = True"
  "dialogs (branch_body All_valid g) = dialogs g @ [Showinfo ''Information'' msg_running]"
  "widget_states (branch_body All_valid g) w =
     (if w = cancel_button then widget_states g cancel_button else Disabled)"
  by (simp_all add: master_destroy_def showinfo_def disable_widgets_simps)

text \<open>The one dialog a call of \<open>validation\<close> adds to the log, by the end of the chain.\<close>

lemma validation_dialogs:
  "validation p g = Inr g' \<Longrightarrow>
     dialogs g' = dialogs g @
       [case validation_branch p g of
          Inl e \<Rightarrow> Showerror ''Error'' msg_ValueError
        | Inr Site_Name_empty \<Rightarrow> Showerror ''Error'' msg_Site_Name
        | Inr Username_empty \<Rightarrow> Showerror ''Error'' msg_Username
        | Inr Password_empty \<Rightarrow> Showerror ''Error'' msg_Password
        | Inr Answer_Password_empty \<Rightarrow> Showerror ''Error'' msg_Answer_Password
        | Inr Core_Switch_1_invalid \<Rightarrow> Showerror ''Error'' msg_Core_Switch_1
        | Inr Core_Switch_2_invalid \<Rightarrow> Showerror ''Error'' msg_Core_Switch_2
        | Inr Results_location_empty \<Rightarrow> Showerror ''Error'' msg_Results_location
        | Inr All_valid \<Rightarrow> Showinfo ''Information'' msg_running]"
  by (auto simp: validation_def validation_try_def showerror_def showinfo_def
        master_destroy_def disable_widgets_simps split: sum.splits branch.splits exn.splits)

lemmas msg_defs =
  msg_Site_Name_def msg_Username_def msg_Password_def msg_Answer_Password_def
  msg_Core_Switch_1_def msg_Core_Switch_2_def msg_Results_location_def msg_ValueError_def

lemma handle_destroyed: "destroyed g \<Longrightarrow> handle p ev g = Inr g"
  by (simp add: handle_def)

lemma run_destroyed: "destroyed g \<Longrightarrow> run p evs g = Inr g"
  by (induction evs) (simp_all add: handle_destroyed)

lemma first_failing_None: "first_failing p g = None \<longleftrightarrow> (\<forall>r. \<not> rule_fails p g r)"
proof -
  have "set rule_order = UNIV"
  proof -
    have "r \<in> set rule_order" for r
      by (cases r) (simp_all add: rule_order_def)
    then show ?thesis by blast
  qed
  then show ?thesis
    by (simp add: first_failing_def find_None_iff)
qed

lemma first_failing_Some: "first_failing p g = Some r \<Longrightarrow> rule_fails p g r"
  by (auto simp: first_failing_def find_Some_iff)

lemma ip_address_samples:
  "ip_address ''10.0.0.1'' = Inr (IPv4Address 167772161)"
  "ip_address ''999.999.999.999'' = Inl ValueError"
  "ip_address ''abc'' = Inl ValueError"
  "ip_address [] = Inl ValueError"
  by code_simp+

subsection \<open>The scenarios\<close>

lemma Scenario_A_vars:
  "vars Scenario_A SiteName_var = ''HQ''"
  "vars Scenario_A Username_var = ''admin''"
  "vars Scenario_A password_var = ''x''"
  "vars Scenario_A answer_redo_var = ''No''"
  "vars Scenario_A answer_password_var = []"
  "vars Scenario_A IP_Address1_var = ''10.0.0.1''"
  "vars Scenario_A IP_Address2_var = []"
  "vars Scenario_A FolderPath_var = ''/tmp/out''"
  by (simp_all add: Scenario_A_def init_gui_def)

lemma Scenario_A_first_failing: "first_failing ip_address Scenario_A = None"
  by (simp add: first_failing_def rule_order_def Scenario_A_vars ip_address_samples)

lemma Scenario_B_first_failing: "first_failing ip_address Scenario_B = Some Rule_coreSwitch1"
  by (simp add: first_failing_def rule_order_def Scenario_B_def StringVar_set_def
        Scenario_A_vars ip_address_samples)

text \<open>
  What the code does with a core switch that does not parse, for every parser and every
  such string: the handler's dialog is added to the log and nothing else changes,
  whichever of the two fields holds the string.
\<close>

lemma unparsable_IP_Address1:
  assumes "vars g SiteName_var \<noteq> []" and "vars g Username_var \<noteq> []"
    and "vars g password_var \<noteq> []"
    and "\<not> (vars g answer_redo_var = ''Yes'' \<and> vars g answer_password_var = [])"
    and "p (vars g IP_Address1_var) = Inl ValueError"
  shows "validation p g = Inr (g\<lparr>dialogs := dialogs g @ [Showerror ''Error'' msg_ValueError]\<rparr>)"
  using assms
  by (auto simp: validation_def validation_try_def validation_branch_def Entry_get_def
        StringVar_get_def chain_from_IP_Address1_def cond_IP_Address1_def showerror_def)

lemma unparsable_IP_Address2:
  assumes "vars g SiteName_var \<noteq> []" and "vars g Username_var \<noteq> []"
    and "vars g password_var \<noteq> []"
    and "\<not> (vars g answer_redo_var = ''Yes'' \<and> vars g answer_password_var = [])"
    and "p (vars g IP_Address1_var) = Inr a"
    and "vars g IP_Address2_var \<noteq> []"
    and "p (vars g IP_Address2_var) = Inl ValueError"
  shows "validation p g = Inr (g\<lparr>dialogs := dialogs g @ [Showerror ''Error'' msg_ValueError]\<rparr>)"
  using assms
  by (auto simp: validation_def validation_try_def validation_branch_def Entry_get_def
        StringVar_get_def chain_from_IP_Address1_def chain_from_IP_Address2_def
        cond_IP_Address1_def cond_IP_Address2_def truth_value_always showerror_def)

section \<open>The claims\<close>

text \<open>
  Claim C1, evaluated where it fails.  The claim expects, for the first rule that is broken,
  the error of that rule, which names the field.  In scenario B the first broken rule is
  the one on the first core switch; with \<^verbatim>\<open>abc\<close> as second core switch in scenario A it
  is the one on the second core switch.  In both runs the one dialog added to the log is
  the handler's, which names neither field: the two rules are reported alike, and not by
  their own error.  For comparison, in scenario D (empty site name on top of scenario B)
  the first broken rule is the one on the site name and the dialog added names that field.
\<close>

theorem core_switch_rules_not_reported_by_their_error:
  "first_failing ip_address Scenario_B = Some Rule_coreSwitch1
   \<and> validation ip_address Scenario_B
       = Inr (Scenario_B\<lparr>dialogs := dialogs Scenario_B @ [Showerror ''Error'' msg_ValueError]\<rparr>)
   \<and> \<not> mentions msg_ValueError (error_field (rule_error Rule_coreSwitch1))
   \<and> first_failing ip_address (StringVar_set IP_Address2_var ''abc'' Scenario_A)
       = Some Rule_coreSwitch2
   \<and> validation ip_address (StringVar_set IP_Address2_var ''abc'' Scenario_A)
       = Inr ((StringVar_set IP_Address2_var ''abc'' Scenario_A)
               \<lparr>dialogs := dialogs (StringVar_set IP_Address2_var ''abc'' Scenario_A)
                    @ [Showerror ''Error'' msg_ValueError]\<rparr>)
   \<and> \<not> mentions msg_ValueError (error_field (rule_error Rule_coreSwitch2))
   \<and> first_failing ip_address Scenario_D = Some Rule_siteName
   \<and> validation ip_address Scenario_D
       = Inr (Scenario_D\<lparr>dialogs := dialogs Scenario_D @ [Showerror ''Error'' msg_Site_Name]\<rparr>)
   \<and> mentions msg_Site_Name (error_field (rule_error Rule_siteName))"
proof (intro conjI)
  show "first_failing ip_address Scenario_B = Some Rule_coreSwitch1"
    by (rule Scenario_B_first_failing)
  then show "validation ip_address Scenario_B
       = Inr (Scenario_B\<lparr>dialogs := dialogs Scenario_B @ [Showerror ''Error'' msg_ValueError]\<rparr>)"
    by (simp add: validation_by_first_failing showerror_def)
  show "\<not> mentions msg_ValueError (error_field (rule_error Rule_coreSwitch1))"
    by code_simp
  show "first_failing ip_address (StringVar_set IP_Address2_var ''abc'' Scenario_A)
       = Some Rule_coreSwitch2"
    by (simp add: first_failing_def rule_order_def StringVar_set_def Scenario_A_vars
          ip_address_samples)
  then show "validation ip_address (StringVar_set IP_Address2_var ''abc'' Scenario_A)
       = Inr ((StringVar_set IP_Address2_var ''abc'' Scenario_A)
               \<lparr>dialogs := dialogs (StringVar_set IP_Address2_var ''abc'' Scenario_A)
                    @ [Showerror ''Error'' msg_ValueError]\<rparr>)"
    by (simp add: validation_by_first_failing showerror_def)
  show "\<not> mentions msg_ValueError (error_field (rule_error Rule_coreSwitch2))"
    by code_simp
  show "first_failing ip_address Scenario_D = Some Rule_siteName"
    by (simp add: first_failing_def rule_order_def Scenario_D_def StringVar_set_def)
  then show "validation ip_address Scenario_D
       = Inr (Scenario_D\<lparr>dialogs := dialogs Scenario_D @ [Showerror ''Error'' msg_Site_Name]\<rparr>)"
    by (simp add: validation_by_first_failing showerror_def)
  show "mentions msg_Site_Name (error_field (rule_error Rule_siteName))"
    by code_simp
qed

text \<open>
  Claim C2, evaluated at scenario B (first core switch \<^verbatim>\<open>999.999.999.999\<close>, all else
  valid).  The claim expects a dialog that names the field Core Switch 1.  The parser
  raises, so the branch that holds the message for this field (a message that does name it)
  is skipped and the handler opens its own dialog, whose message does not name the field.
\<close>

theorem first_core_switch_generic_dialog:
  "validation ip_address Scenario_B = Inr (showerror ''Error'' msg_ValueError Scenario_B)
   \<and> validation ip_address Scenario_B \<noteq> Inr (showerror ''Error'' msg_Core_Switch_1 Scenario_B)
   \<and> \<not> mentions msg_ValueError ''Core Switch 1''
   \<and> mentions msg_Core_Switch_1 ''Core Switch 1''"
proof (intro conjI)
  show eq: "validation ip_address Scenario_B = Inr (showerror ''Error'' msg_ValueError Scenario_B)"
    by (simp add: validation_by_first_failing Scenario_B_first_failing)
  have "msg_ValueError \<noteq> msg_Core_Switch_1"
    by (simp add: msg_ValueError_def msg_Core_Switch_1_def)
  then have "dialogs (showerror ''Error'' msg_ValueError Scenario_B)
      \<noteq> dialogs (showerror ''Error'' msg_Core_Switch_1 Scenario_B)"
    by (simp add: showerror_simps)
  then show "validation ip_address Scenario_B
      \<noteq> Inr (showerror ''Error'' msg_Core_Switch_1 Scenario_B)"
    unfolding eq by auto
  show "\<not> mentions msg_ValueError ''Core Switch 1''"
    by code_simp
  show "mentions msg_Core_Switch_1 ''Core Switch 1''"
    by code_simp
qed

text \<open>
  Claim C3, evaluated at scenario A with \<^verbatim>\<open>abc\<close> as second core switch.  The claim
  expects a dialog that names the field Core Switch 2.  The handler's dialog is opened
  instead, and it does not name the field; nor does the message of the skipped branch,
  which reads Core Switch 1.
\<close>

theorem second_core_switch_generic_dialog:
  "validation ip_address (StringVar_set IP_Address2_var ''abc'' Scenario_A)
     = Inr (showerror ''Error'' msg_ValueError (StringVar_set IP_Address2_var ''abc'' Scenario_A))
   \<and> \<not> mentions msg_ValueError ''Core Switch 2''
   \<and> \<not> mentions msg_Core_Switch_2 ''Core Switch 2''"
proof (intro conjI)
  have "first_failing ip_address (StringVar_set IP_Address2_var ''abc'' Scenario_A)
      = Some Rule_coreSwitch2"
    by (simp add: first_failing_def rule_order_def StringVar_set_def Scenario_A_vars
          ip_address_samples)
  then show "validation ip_address (StringVar_set IP_Address2_var ''abc'' Scenario_A)
     = Inr (showerror ''Error'' msg_ValueError (StringVar_set IP_Address2_var ''abc'' Scenario_A))"
    by (simp add: validation_by_first_failing)
  show "\<not> mentions msg_ValueError ''Core Switch 2''"
    by code_simp
  show "\<not> mentions msg_Core_Switch_2 ''Core Switch 2''"
    by code_simp
qed

text \<open>
  Claim C4.  With retry set to \<open>No\<close> an empty answer password is accepted: the branch for
  the answer password is not taken, its dialog is not the outcome, and (the three fields
  before it being filled) the chain goes on with the condition on the first core switch.
  With retry set to \<open>Yes\<close>, an empty answer password and the three fields before it filled,
  the outcome is the dialog for the answer password and nothing else.
\<close>

theorem answer_password_needed_only_for_retry:
  "(vars g answer_redo_var = ''No'' \<and> vars g answer_password_var = [] \<longrightarrow>
      validation_branch p g \<noteq> Inr Answer_Password_empty
      \<and> validation p g \<noteq> Inr (showerror ''Error'' msg_Answer_Password g)
      \<and> (vars g SiteName_var \<noteq> [] \<and> vars g Username_var \<noteq> [] \<and> vars g password_var \<noteq> [] \<longrightarrow>
           validation_branch p g = chain_from_IP_Address1 p g))
   \<and> (vars g answer_redo_var = ''Yes'' \<and> vars g answer_password_var = [] \<and>
       vars g SiteName_var \<noteq> [] \<and> vars g Username_var \<noteq> [] \<and> vars g password_var \<noteq> [] \<longrightarrow>
         validation p g = Inr (showerror ''Error'' msg_Answer_Password g))"
proof (intro conjI impI)
  assume no: "vars g answer_redo_var = ''No'' \<and> vars g answer_password_var = []"
  then have nf: "first_failing p g \<noteq> Some Rule_answerPassword"
    using first_failing_Some [of p g Rule_answerPassword] by auto
  then show "validation_branch p g \<noteq> Inr Answer_Password_empty"
    by (auto simp: validation_branch_eq split: option.splits rule.splits)
  have nb: "validation_branch p g \<noteq> Inr Answer_Password_empty"
    using nf by (auto simp: validation_branch_eq split: option.splits rule.splits)
  show "validation p g \<noteq> Inr (showerror ''Error'' msg_Answer_Password g)"
  proof
    assume "validation p g = Inr (showerror ''Error'' msg_Answer_Password g)"
    from validation_dialogs [OF this] nb show False
      by (auto simp: showerror_simps msg_defs split: sum.splits branch.splits)
  qed
next
  assume "vars g answer_redo_var = ''No'' \<and> vars g answer_password_var = []"
    and "vars g SiteName_var \<noteq> [] \<and> vars g Username_var \<noteq> [] \<and> vars g password_var \<noteq> []"
  then show "validation_branch p g = chain_from_IP_Address1 p g"
    by (simp add: validation_branch_def Entry_get_def StringVar_get_def)
next
  assume "vars g answer_redo_var = ''Yes'' \<and> vars g answer_password_var = [] \<and>
       vars g SiteName_var \<noteq> [] \<and> vars g Username_var \<noteq> [] \<and> vars g password_var \<noteq> []"
  then show "validation p g = Inr (showerror ''Error'' msg_Answer_Password g)"
    by (simp add: validation_def validation_try_def validation_branch_def Entry_get_def
          StringVar_get_def)
qed

text \<open>
  Scenario A has retry \<open>No\<close> and no answer password; switching retry to \<open>Yes\<close> gives the
  dialog.
\<close>

theorem answer_password_needed_only_for_retry_witness:
  "(vars Scenario_A answer_redo_var = ''No'' \<and> vars Scenario_A answer_password_var = []
    \<and> vars Scenario_A SiteName_var \<noteq> [] \<and> vars Scenario_A Username_var \<noteq> []
    \<and> vars Scenario_A password_var \<noteq> []
    \<and> validation_branch ip_address Scenario_A = chain_from_IP_Address1 ip_address Scenario_A
    \<and> validation ip_address Scenario_A \<noteq> Inr (showerror ''Error'' msg_Answer_Password Scenario_A))
   \<and> (vars (StringVar_set answer_redo_var ''Yes'' Scenario_A) answer_redo_var = ''Yes''
    \<and> vars (StringVar_set answer_redo_var ''Yes'' Scenario_A) answer_password_var = []
    \<and> validation ip_address (StringVar_set answer_redo_var ''Yes'' Scenario_A)
        = Inr (showerror ''Error'' msg_Answer_Password
                 (StringVar_set answer_redo_var ''Yes'' Scenario_A)))"
  using answer_password_needed_only_for_retry [of Scenario_A ip_address]
    answer_password_needed_only_for_retry [of "StringVar_set answer_redo_var ''Yes'' Scenario_A"
      ip_address]
  by (simp add: Scenario_A_vars StringVar_set_def)

text \<open>
  Claim C5.  When the second core switch is empty its condition is false without the
  parser being asked (whatever the parser would do with the empty string): the branch of
  the second core switch is not taken, the rule is never the first broken one, and the
  chain goes on with the results folder.  When the earlier rules pass, the outcome is that
  of the results folder check, and it is not the dialog for an invalid address.
\<close>

theorem empty_second_core_switch_is_skipped:
  assumes "vars g IP_Address2_var = []"
  shows "cond_IP_Address2 p g = Inr False
    \<and> chain_from_IP_Address2 p g = Inr (chain_from_FolderPath g)
    \<and> validation_branch p g \<noteq> Inr Core_Switch_2_invalid
    \<and> first_failing p g \<noteq> Some Rule_coreSwitch2
    \<and> (vars g SiteName_var \<noteq> [] \<and> vars g Username_var \<noteq> [] \<and> vars g password_var \<noteq> []
        \<and> \<not> (vars g answer_redo_var = ''Yes'' \<and> vars g answer_password_var = [])
        \<and> p (vars g IP_Address1_var) = Inr a \<longrightarrow>
          validation p g = Inr (branch_body (chain_from_FolderPath g) g)
          \<and> validation p g \<noteq> Inr (showerror ''Error'' msg_ValueError g))"
proof (intro conjI impI)
  show c: "cond_IP_Address2 p g = Inr False"
    using assms by (simp add: cond_IP_Address2_def StringVar_get_def)
  then show "chain_from_IP_Address2 p g = Inr (chain_from_FolderPath g)"
    by (simp add: chain_from_IP_Address2_def)
  show nf: "first_failing p g \<noteq> Some Rule_coreSwitch2"
    using assms first_failing_Some [of p g Rule_coreSwitch2] by auto
  then show "validation_branch p g \<noteq> Inr Core_Switch_2_invalid"
    by (auto simp: validation_branch_eq split: option.splits rule.splits)
next
  assume h: "vars g SiteName_var \<noteq> [] \<and> vars g Username_var \<noteq> [] \<and> vars g password_var \<noteq> []
        \<and> \<not> (vars g answer_redo_var = ''Yes'' \<and> vars g answer_password_var = [])
        \<and> p (vars g IP_Address1_var) = Inr a"
  with assms show eq: "validation p g = Inr (branch_body (chain_from_FolderPath g) g)"
    by (auto simp: validation_def validation_try_def validation_branch_def Entry_get_def
          StringVar_get_def chain_from_IP_Address1_def chain_from_IP_Address2_def
          cond_IP_Address1_def cond_IP_Address2_def truth_value_always
          simp del: branch_body.simps)
  have "dialogs (branch_body (chain_from_FolderPath g) g)
      \<noteq> dialogs (showerror ''Error'' msg_ValueError g)"
    by (simp add: chain_from_FolderPath_def showerror_simps All_valid_simps
          msg_ValueError_def msg_Results_location_def del: branch_body.simps(8))
  then show "validation p g \<noteq> Inr (showerror ''Error'' msg_ValueError g)"
    unfolding eq by auto
qed

text \<open>
  In scenario A the second core switch is empty, a string the parser rejects; validation
  succeeds, and fails on the results folder alone when that is emptied.
\<close>

theorem empty_second_core_switch_is_skipped_witness:
  "vars Scenario_A IP_Address2_var = []
   \<and> ip_address (vars Scenario_A IP_Address2_var) = Inl ValueError
   \<and> cond_IP_Address2 ip_address Scenario_A = Inr False
   \<and> validation ip_address Scenario_A = Inr (branch_body All_valid Scenario_A)
   \<and> validation ip_address (StringVar_set FolderPath_var [] Scenario_A)
       = Inr (showerror ''Error'' msg_Results_location (StringVar_set FolderPath_var [] Scenario_A))"
  using empty_second_core_switch_is_skipped [of Scenario_A ip_address "IPv4Address 167772161"]
    empty_second_core_switch_is_skipped [of "StringVar_set FolderPath_var [] Scenario_A"
      ip_address "IPv4Address 167772161"]
  by (simp add: Scenario_A_vars StringVar_set_def ip_address_samples chain_from_FolderPath_def
        StringVar_get_def del: branch_body.simps(8))

text \<open>
  Claim C6.  When all seven rules pass, \<open>validation\<close> returns normally in a state where
  the window is destroyed (the controller is \<open>Submitted\<close>), every variable has the value it
  had, every widget but the Cancel button is disabled, and the one dialog opened is the
  information that the script is running.  The state is terminal: no sequence of edits,
  Submit presses and Browse presses changes it.
\<close>

theorem valid_form_is_submitted:
  assumes "vars g SiteName_var \<noteq> []" and "vars g Username_var \<noteq> []"
    and "vars g password_var \<noteq> []"
    and "vars g answer_redo_var = ''Yes'' \<longrightarrow> vars g answer_password_var \<noteq> []"
    and "p (vars g IP_Address1_var) = Inr a1"
    and "vars g IP_Address2_var = [] \<or> p (vars g IP_Address2_var) = Inr a2"
    and "vars g FolderPath_var \<noteq> []"
  shows "\<exists>g'. validation p g = Inr g'
     \<and> controller g' = Submitted
     \<and> destroyed g'
     \<and> vars g' = vars g
     \<and> (\<forall>w. w \<noteq> cancel_button \<longrightarrow> widget_states g' w = Disabled)
     \<and> dialogs g' = dialogs g @ [Showinfo ''Information'' msg_running]
     \<and> (\<forall>evs. run p evs g' = Inr g')"
proof -
  have "\<not> rule_fails p g r" for r
    using assms by (cases r) auto
  then have "first_failing p g = None"
    by (simp add: first_failing_None)
  then have v: "validation p g = Inr (branch_body All_valid g)"
    by (simp add: validation_by_first_failing del: branch_body.simps)
  have d: "destroyed (branch_body All_valid g)"
    by (simp add: All_valid_simps del: branch_body.simps)
  then have "\<forall>evs. run p evs (branch_body All_valid g) = Inr (branch_body All_valid g)"
    by (simp add: run_destroyed del: branch_body.simps)
  with v d show ?thesis
    by (simp add: controller_def All_valid_simps del: branch_body.simps)
qed

text \<open>
  Scenario A satisfies the seven rules.
\<close>

theorem valid_form_is_submitted_witness:
  "vars Scenario_A SiteName_var \<noteq> [] \<and> vars Scenario_A Username_var \<noteq> []
   \<and> vars Scenario_A password_var \<noteq> []
   \<and> vars Scenario_A answer_redo_var \<noteq> ''Yes''
   \<and> ip_address (vars Scenario_A IP_Address1_var) = Inr (IPv4Address 167772161)
   \<and> vars Scenario_A IP_Address2_var = []
   \<and> vars Scenario_A FolderPath_var \<noteq> []
   \<and> (\<exists>g'. validation ip_address Scenario_A = Inr g'
         \<and> controller g' = Submitted
         \<and> vars g' = vars Scenario_A
         \<and> widget_states g' Site_Name_entry = Disabled
         \<and> widget_states g' browse_button = Disabled
         \<and> widget_states g' submit_button = Disabled
         \<and> dialogs g' = [Showinfo ''Information'' msg_running]
         \<and> run ip_address [Edit Site_Name_entry ''LAB'', Press_browse ''/srv'', Press_submit] g'
             = Inr g')"
proof -
  have "dialogs Scenario_A = []"
    by (simp add: Scenario_A_def init_gui_def)
  with valid_form_is_submitted [of Scenario_A ip_address "IPv4Address 167772161" "IPv4Address 0"]
  obtain g' where "validation ip_address Scenario_A = Inr g'"
    and "controller g' = Submitted"
    and "vars g' = vars Scenario_A"
    and "\<forall>w. w \<noteq> cancel_button \<longrightarrow> widget_states g' w = Disabled"
    and "dialogs g' = [Showinfo ''Information'' msg_running]"
    and "\<forall>evs. run ip_address evs g' = Inr g'"
    by (auto simp: Scenario_A_vars ip_address_samples)
  then show ?thesis
    by (simp add: Scenario_A_vars ip_address_samples del: run.simps)
qed

text \<open>
  Claim C7.  When some rule is broken, \<open>validation\<close> returns the state it was given with
  one error dialog appended: no variable and no widget state has changed, the window is
  not destroyed, and the controller is in the state it was in.
\<close>

theorem failed_validation_keeps_form:
  assumes "rule_fails p g r"
  shows "\<exists>g' m. validation p g = Inr g'
     \<and> g' = g\<lparr>dialogs := dialogs g @ [Showerror ''Error'' m]\<rparr>
     \<and> vars g' = vars g
     \<and> widget_states g' = widget_states g
     \<and> destroyed g' = destroyed g
     \<and> controller g' = controller g"
proof -
  from assms have "first_failing p g \<noteq> None"
    by (auto simp: first_failing_None)
  then obtain r' where "first_failing p g = Some r'"
    by auto
  then obtain m where "validation p g = Inr (showerror ''Error'' m g)"
    by (cases r') (simp_all add: validation_by_first_failing)
  then show ?thesis
    by (intro exI [of _ "showerror ''Error'' m g"] exI [of _ m])
       (simp add: showerror_def controller_def)
qed

text \<open>
  Scenario B breaks the rule of the first core switch and stays in \<open>Editing\<close>.
\<close>

theorem failed_validation_keeps_form_witness:
  "rule_fails ip_address Scenario_B Rule_coreSwitch1
   \<and> (\<exists>g' m. validation ip_address Scenario_B = Inr g'
        \<and> g' = Scenario_B\<lparr>dialogs := dialogs Scenario_B @ [Showerror ''Error'' m]\<rparr>
        \<and> vars g' = vars Scenario_B
        \<and> widget_states g' = widget_states Scenario_B
        \<and> destroyed g' = destroyed Scenario_B
        \<and> controller g' = Editing)"
proof -
  have f: "rule_fails ip_address Scenario_B Rule_coreSwitch1"
    by (simp add: Scenario_B_def StringVar_set_def ip_address_samples)
  have "controller Scenario_B = Editing"
    by (simp add: controller_def Scenario_B_def StringVar_set_def Scenario_A_def init_gui_def)
  with f failed_validation_keeps_form [OF f] show ?thesis
    by simp
qed

text \<open>
  Claim C8, as amended.  \<open>get_folder_path\<close> stores the answer of the directory dialog in
  \<open>FolderPath_var\<close> whatever the variable held before: the chosen directory when the user
  chooses one, the empty string when the user cancels.  No other variable, no widget, no
  dialog and not the window is touched.
\<close>

theorem get_folder_path_stores_answer:
  "vars (get_folder_path folder_selected g) FolderPath_var = folder_selected
   \<and> vars (get_folder_path [] g) FolderPath_var = []
   \<and> (\<forall>v. v \<noteq> FolderPath_var \<longrightarrow> vars (get_folder_path folder_selected g) v = vars g v)
   \<and> widget_states (get_folder_path folder_selected g) = widget_states g
   \<and> destroyed (get_folder_path folder_selected g) = destroyed g
   \<and> dialogs (get_folder_path folder_selected g) = dialogs g"
  by (simp add: get_folder_path_def StringVar_set_def)

text \<open>
  Choosing a directory and cancelling, both on scenario A.
\<close>

theorem get_folder_path_stores_answer_witness:
  "vars Scenario_A FolderPath_var = ''/tmp/out''
   \<and> vars (get_folder_path [] Scenario_A) FolderPath_var = []
   \<and> vars (get_folder_path ''/srv/audit'' Scenario_A) FolderPath_var = ''/srv/audit''
   \<and> (SiteName_var \<noteq> FolderPath_var
        \<and> vars (get_folder_path [] Scenario_A) SiteName_var = ''HQ'')"
  using get_folder_path_stores_answer [of "[]" Scenario_A]
    get_folder_path_stores_answer [of "''/srv/audit''" Scenario_A]
  by (simp add: Scenario_A_def)

text \<open>
  Claim C8 as stated (cancelling leaves the variable as it was) fails: with
  \<^verbatim>\<open>/tmp/out\<close> chosen earlier, cancelling the dialog empties the variable.
\<close>

theorem get_folder_path_cancel_counterexample:
  "vars (get_folder_path [] Scenario_A) FolderPath_var \<noteq> vars Scenario_A FolderPath_var"
  by (simp add: get_folder_path_def StringVar_set_def Scenario_A_def)

text \<open>
  Claim C9.  For every parser and every content of the fields, \<open>validation\<close> returns a
  state and raises nothing, and it has added exactly one dialog to the log.  Whenever the
  parser raises \<open>ValueError\<close> on a string that validation hands it (the first core switch,
  once the four rules before it pass; the second core switch, when it is not empty and the
  first one parses), the result is the state at entry with the error dialog of the handler
  added to the log.
\<close>

theorem validation_catches_ValueError:
  "(\<exists>g' d. validation p g = Inr g' \<and> dialogs g' = dialogs g @ [d])
   \<and> (vars g SiteName_var \<noteq> [] \<and> vars g Username_var \<noteq> [] \<and> vars g password_var \<noteq> []
       \<and> \<not> (vars g answer_redo_var = ''Yes'' \<and> vars g answer_password_var = [])
       \<and> p (vars g IP_Address1_var) = Inl ValueError \<longrightarrow>
         validation p g
           = Inr (g\<lparr>dialogs := dialogs g @ [Showerror ''Error'' msg_ValueError]\<rparr>))
   \<and> (vars g SiteName_var \<noteq> [] \<and> vars g Username_var \<noteq> [] \<and> vars g password_var \<noteq> []
       \<and> \<not> (vars g answer_redo_var = ''Yes'' \<and> vars g answer_password_var = [])
       \<and> p (vars g IP_Address1_var) = Inr a
       \<and> vars g IP_Address2_var \<noteq> [] \<and> p (vars g IP_Address2_var) = Inl ValueError \<longrightarrow>
         validation p g
           = Inr (g\<lparr>dialogs := dialogs g @ [Showerror ''Error'' msg_ValueError]\<rparr>))"
proof (intro conjI impI)
  obtain g' where r: "validation p g = Inr g'"
    using validation_by_first_failing [of p g] by blast
  from validation_dialogs [OF r] r
  show "\<exists>g' d. validation p g = Inr g' \<and> dialogs g' = dialogs g @ [d]"
    by blast
next
  assume "vars g SiteName_var \<noteq> [] \<and> vars g Username_var \<noteq> [] \<and> vars g password_var \<noteq> []
       \<and> \<not> (vars g answer_redo_var = ''Yes'' \<and> vars g answer_password_var = [])
       \<and> p (vars g IP_Address1_var) = Inl ValueError"
  then show "validation p g
      = Inr (g\<lparr>dialogs := dialogs g @ [Showerror ''Error'' msg_ValueError]\<rparr>)"
    using unparsable_IP_Address1 [of g p] by blast
next
  assume "vars g SiteName_var \<noteq> [] \<and> vars g Username_var \<noteq> [] \<and> vars g password_var \<noteq> []
       \<and> \<not> (vars g answer_redo_var = ''Yes'' \<and> vars g answer_password_var = [])
       \<and> p (vars g IP_Address1_var) = Inr a
       \<and> vars g IP_Address2_var \<noteq> [] \<and> p (vars g IP_Address2_var) = Inl ValueError"
  then show "validation p g
      = Inr (g\<lparr>dialogs := dialogs g @ [Showerror ''Error'' msg_ValueError]\<rparr>)"
    using unparsable_IP_Address2 [of g p a] by blast
qed

text \<open>
  The parser raises on the first core switch of scenario B, and on the second core switch
  \<^verbatim>\<open>abc\<close> put into scenario A.
\<close>

theorem validation_catches_ValueError_witness:
  "ip_address (vars Scenario_B IP_Address1_var) = Inl ValueError
   \<and> validation ip_address Scenario_B
       = Inr (Scenario_B\<lparr>dialogs := dialogs Scenario_B @ [Showerror ''Error'' msg_ValueError]\<rparr>)
   \<and> dialogs Scenario_B = []
   \<and> ip_address (vars (StringVar_set IP_Address2_var ''abc'' Scenario_A) IP_Address1_var)
       = Inr (IPv4Address 167772161)
   \<and> ip_address (vars (StringVar_set IP_Address2_var ''abc'' Scenario_A) IP_Address2_var)
       = Inl ValueError
   \<and> validation ip_address (StringVar_set IP_Address2_var ''abc'' Scenario_A)
       = Inr ((StringVar_set IP_Address2_var ''abc'' Scenario_A)
               \<lparr>dialogs := dialogs (StringVar_set IP_Address2_var ''abc'' Scenario_A)
                    @ [Showerror ''Error'' msg_ValueError]\<rparr>)"
  using validation_catches_ValueError [of ip_address Scenario_B "IPv4Address 0"]
    validation_catches_ValueError [of ip_address "StringVar_set IP_Address2_var ''abc'' Scenario_A"
      "IPv4Address 167772161"]
  by (simp add: Scenario_B_def StringVar_set_def Scenario_A_vars ip_address_samples
        Scenario_A_def init_gui_def)

text \<open>
  Claim C10.  The conditions guarding the two dialogs \<open>msg_Core_Switch_1\<close> and
  \<open>msg_Core_Switch_2\<close> never evaluate to true, because the parser either raises or returns
  an object that is true; so neither branch is ever taken and neither dialog is ever the
  outcome of \<open>validation\<close>.
\<close>

theorem field_specific_IP_branches_unreachable:
  "cond_IP_Address1 p g \<noteq> Inr True
   \<and> cond_IP_Address2 p g \<noteq> Inr True
   \<and> validation_branch p g \<noteq> Inr Core_Switch_1_invalid
   \<and> validation_branch p g \<noteq> Inr Core_Switch_2_invalid
   \<and> validation p g \<noteq> Inr (branch_body Core_Switch_1_invalid g)
   \<and> validation p g \<noteq> Inr (branch_body Core_Switch_2_invalid g)"
proof (intro conjI)
  show "cond_IP_Address1 p g \<noteq> Inr True"
    by (simp add: cond_IP_Address1_eq)
  show "cond_IP_Address2 p g \<noteq> Inr True"
    by (simp add: cond_IP_Address2_eq)
  show nb1: "validation_branch p g \<noteq> Inr Core_Switch_1_invalid"
    by (simp add: validation_branch_eq split: option.splits rule.splits)
  show nb2: "validation_branch p g \<noteq> Inr Core_Switch_2_invalid"
    by (simp add: validation_branch_eq split: option.splits rule.splits)
  show "validation p g \<noteq> Inr (branch_body Core_Switch_1_invalid g)"
  proof
    assume "validation p g = Inr (branch_body Core_Switch_1_invalid g)"
    from validation_dialogs [OF this] nb1 show False
      by (auto simp: showerror_simps msg_defs split: sum.splits branch.splits)
  qed
  show "validation p g \<noteq> Inr (branch_body Core_Switch_2_invalid g)"
  proof
    assume "validation p g = Inr (branch_body Core_Switch_2_invalid g)"
    from validation_dialogs [OF this] nb2 show False
      by (auto simp: showerror_simps msg_defs split: sum.splits branch.splits)
  qed
qed

end
